theory Spec2Isabelle
  imports Complex_Main "HOL-Library.Word"
begin

section \<open>Bytes, blobs and the platform's cryptography\<close>

text \<open>
  The application is a TypeScript/React program. Its byte payloads (\<open>ArrayBuffer\<close>,
  \<open>Uint8Array\<close>, the contents of a \<open>Blob\<close>) are lists of 8-bit words; a \<open>Blob\<close> is its
  bytes together with its MIME type. A \<open>CryptoKey\<close> is an opaque handle of the browser's
  WebCrypto implementation: the program never looks inside one, so a key is represented by
  an identifier.
\<close>

type_synonym byte = "8 word"
type_synonym bytes = "byte list"
type_synonym CryptoKey = nat

record Blob =
  blob_data :: bytes
  blob_type :: string

text \<open>
  The errors the encryption module raises, one constructor per \<open>throw\<close> (or rejected
  promise that is let through).
\<close>

datatype error =
    NoSessionKeyFound
  | MissingEncryptionInformation
  | FailedToDecrypt
  | OperationError
  | NoActiveConnection
  | FailedToEncrypt
  | TypeError

section \<open>Plain objects used as dictionaries\<close>

text \<open>
  The modules keep their tables in plain objects (\<open>{}\<close>) indexed by a string. A plain
  object is its own properties together with a prototype, \<open>Object.prototype\<close> at first. A
  read \<open>obj[name]\<close> gives the own property, and when there is none what the prototype
  chain holds under the name. \<open>Object.prototype\<close> has a function under each of the names
  below, and the accessor \<open>__proto__\<close>: read, it is the prototype of the object; assigned
  an object, it replaces the prototype and creates no own property; assigned a number, it
  does nothing. \<open>delete obj[name]\<close> removes an own property and nothing else.
\<close>

definition Object_prototype_names :: "string list" where
  "Object_prototype_names =
     [''constructor'', ''__defineGetter__'', ''__defineSetter__'', ''hasOwnProperty'',
      ''__lookupGetter__'', ''__lookupSetter__'', ''isPrototypeOf'', ''propertyIsEnumerable'',
      ''toString'', ''valueOf'', ''toLocaleString'']"

section \<open>The session key store (lib/keyExchange.ts)\<close>

text \<open>
  \<open>const sessionKeys: SessionKeyStore = {}\<close> is such an object, from session identifiers to
  derived keys. Session identifiers arrive in messages of the peer, so any string can be
  one. The values stored are \<open>CryptoKey\<close> objects, so an assignment to \<open>__proto__\<close> makes the
  key the prototype of the store: \<open>prototype_key\<close> is that key, and \<open>None\<close> while the
  prototype is \<open>Object.prototype\<close>. The chain then runs through the key and
  \<open>CryptoKey.prototype\<close> to \<open>Object.prototype\<close>: the four attributes of the \<open>CryptoKey\<close>
  interface are accessors without setter whose getter throws a \<open>TypeError\<close> on a receiver
  that is not a key, and the module, an ES module, runs in strict mode, where an
  assignment to an inherited accessor without setter throws a \<open>TypeError\<close>.
\<close>

record SessionKeyStore =
  own_properties :: "string \<rightharpoonup> CryptoKey"
  prototype_key :: "CryptoKey option"

definition CryptoKey_attribute_names :: "string list" where
  "CryptoKey_attribute_names = [''type'', ''extractable'', ''algorithm'', ''usages'']"

text \<open>What a read of the store gives: \<open>undefined\<close>, a key, or another object (a function
  of a prototype, or \<open>Object.prototype\<close> itself), which is truthy like a key.\<close>

datatype property_value = Undefined | KeyValue CryptoKey | ObjectValue



text \<open>\<open>return sessionKeys[sessionId]\<close>\<close>

definition getSessionKey :: "SessionKeyStore \<Rightarrow> string \<Rightarrow> error + property_value" where
  "getSessionKey sessionKeys sessionId =
     (if sessionId = ''__proto__''
      then Inr (case prototype_key sessionKeys of None \<Rightarrow> ObjectValue | Some key \<Rightarrow> KeyValue key)
      else
        (case own_properties sessionKeys sessionId of
           Some key \<Rightarrow> Inr (KeyValue key)
         | None \<Rightarrow>
             if prototype_key sessionKeys \<noteq> None \<and> sessionId \<in> set CryptoKey_attribute_names
             then Inl TypeError
             else if sessionId \<in> set Object_prototype_names then Inr ObjectValue
             else Inr Undefined))"

text \<open>\<open>if (sessionKeys[sessionId]) { delete sessionKeys[sessionId]; }\<close>\<close>

definition removeSessionKey :: "string \<Rightarrow> SessionKeyStore \<Rightarrow> error + SessionKeyStore" where
  "removeSessionKey sessionId sessionKeys =
     (case getSessionKey sessionKeys sessionId of
        Inl e \<Rightarrow> Inl e
      | Inr Undefined \<Rightarrow> Inr sessionKeys
      | Inr v \<Rightarrow>
          Inr (if sessionId = ''__proto__'' then sessionKeys
               else sessionKeys\<lparr>own_properties := (own_properties sessionKeys)(sessionId := None)\<rparr>))"

text \<open>
  The store only changes through \<open>storeSessionKey\<close> and \<open>removeSessionKey\<close>; a history of
  the store is a list of such calls, applied to the empty object the module starts with. A
  call that throws leaves the store as it was.
\<close>

datatype store_op = StoreOp string CryptoKey | RemoveOp string



fun stores_session :: "string \<Rightarrow> store_op \<Rightarrow> bool" where
  "stores_session sessionId (StoreOp sid key) = (sid = sessionId)"
| "stores_session sessionId (RemoveOp sid) = False"

section \<open>JavaScript numbers\<close>

text \<open>
  A JavaScript number is an IEEE 754 binary64 value: a finite value, given by its sign
  bit (set for a negative number, and for \<open>-0\<close>) and its magnitude, an infinity with
  its sign, or \<open>NaN\<close>. The magnitude of a finite value is a multiple of \<open>2^q\<close> with a factor
  below \<open>2^53\<close>, for an exponent \<open>q\<close> from -1074 to 971.
\<close>

datatype double = Double bool real | Infinity bool | NotANumber

definition signed_magnitude :: "bool \<Rightarrow> real \<Rightarrow> real" where
  "signed_magnitude sign magnitude = (if sign then - magnitude else magnitude)"

text \<open>\<open>2^q\<close> for an integer \<open>q\<close>.\<close>

definition scale2 :: "int \<Rightarrow> real" where
  "scale2 q = (if 0 \<le> q then 2 ^ nat q else 1 / 2 ^ nat (- q))"

text \<open>The nearest integer, a tie going to the even one.\<close>

definition round_half_even :: "real \<Rightarrow> int" where
  "round_half_even y =
     (let n = \<lfloor>y\<rfloor> in
      if y - of_int n < 1 / 2 then n
      else if 1 / 2 < y - of_int n then n + 1
      else if even n then n else n + 1)"

text \<open>
  The result of every arithmetic operation is the exact result rounded to the nearest
  binary64 value, ties to even. Around a positive \<open>x\<close> these values are the multiples of
  \<open>2^q\<close> for \<open>q = max(floor(log2 x) - 52, -1074)\<close>, and a rounded magnitude of \<open>2^1024\<close> or
  more is an overflow, to infinity.
\<close>

definition ulp_exponent :: "real \<Rightarrow> int" where
  "ulp_exponent x = max (\<lfloor>log 2 x\<rfloor> - 52) (- 1074)"

definition round_magnitude :: "real \<Rightarrow> real option" where
  "round_magnitude x =
     (if x = 0 then Some 0
      else
        let q = ulp_exponent x;
            r = of_int (round_half_even (x / scale2 q)) * scale2 q
        in if 2 ^ 1024 \<le> r then None else Some r)"

definition fl :: "bool \<Rightarrow> real \<Rightarrow> double" where
  "fl sign x = (case round_magnitude x of None \<Rightarrow> Infinity sign | Some r \<Rightarrow> Double sign r)"

text \<open>
  \<open>x - y\<close>, \<open>x * y\<close> and \<open>x / y\<close>. A difference that is exactly zero is \<open>+0\<close>, except
  \<open>(-0) - (+0)\<close>, which is \<open>-0\<close>; the sign of a product or quotient is the exclusive or of
  the signs.
\<close>

fun double_sub :: "double \<Rightarrow> double \<Rightarrow> double" where
  "double_sub (Double s m) (Double t n) =
     (let x = signed_magnitude s m - signed_magnitude t n in
      if x = 0 then Double (s \<and> \<not> t \<and> m = 0) 0 else fl (x < 0) \<bar>x\<bar>)"
| "double_sub (Double s m) (Infinity t) = Infinity (\<not> t)"
| "double_sub (Infinity s) (Double t n) = Infinity s"
| "double_sub (Infinity s) (Infinity t) = (if s = t then NotANumber else Infinity s)"
| "double_sub NotANumber y = NotANumber"
| "double_sub x NotANumber = NotANumber"

fun double_mul :: "double \<Rightarrow> double \<Rightarrow> double" where
  "double_mul (Double s m) (Double t n) = fl (s \<noteq> t) (m * n)"
| "double_mul (Double s m) (Infinity t) = (if m = 0 then NotANumber else Infinity (s \<noteq> t))"
| "double_mul (Infinity s) (Double t n) = (if n = 0 then NotANumber else Infinity (s \<noteq> t))"
| "double_mul (Infinity s) (Infinity t) = Infinity (s \<noteq> t)"
| "double_mul NotANumber y = NotANumber"
| "double_mul x NotANumber = NotANumber"

fun double_div :: "double \<Rightarrow> double \<Rightarrow> double" where
  "double_div (Double s m) (Double t n) =
     (if n = 0 then (if m = 0 then NotANumber else Infinity (s \<noteq> t))
      else fl (s \<noteq> t) (m / n))"
| "double_div (Double s m) (Infinity t) = Double (s \<noteq> t) 0"
| "double_div (Infinity s) (Double t n) = Infinity (s \<noteq> t)"
| "double_div (Infinity s) (Infinity t) = NotANumber"
| "double_div NotANumber y = NotANumber"
| "double_div x NotANumber = NotANumber"

text \<open>
  \<open>Math.round(x)\<close>: the integer nearest to \<open>x\<close>, a tie going up; the sign of \<open>x\<close> is kept, so
  that a negative \<open>x\<close> from -0.5 on gives \<open>-0\<close>. \<open>Math.max(0, x)\<close>: \<open>NaN\<close> for \<open>NaN\<close>, and
  \<open>+0\<close> is larger than \<open>-0\<close>.
\<close>

fun Math_round :: "double \<Rightarrow> double" where
  "Math_round (Double s m) = Double s \<bar>of_int \<lfloor>signed_magnitude s m + 1 / 2\<rfloor>\<bar>"
| "Math_round x = x"

fun Math_max_0 :: "double \<Rightarrow> double" where
  "Math_max_0 (Double s m) = (if s then Double False 0 else Double False m)"
| "Math_max_0 (Infinity s) = (if s then Double False 0 else Infinity False)"
| "Math_max_0 NotANumber = NotANumber"

text \<open>
  What a read of a plain object that holds numbers gives: \<open>undefined\<close>, a number, or an
  object of the prototype chain. \<open>v || 0\<close> replaces a falsy value (\<open>undefined\<close>, a zero,
  \<open>NaN\<close>) by 0; \<open>v <= 0\<close> and the arithmetic convert an object to a number, which gives
  \<open>NaN\<close>, and a comparison with \<open>NaN\<close> is false.
\<close>

datatype js_value = UndefinedValue | Number double | Object

definition object_get :: "(string \<rightharpoonup> double) \<Rightarrow> string \<Rightarrow> js_value" where
  "object_get own name =
     (if name = ''__proto__'' then Object
      else
        (case own name of
           Some v \<Rightarrow> Number v
         | None \<Rightarrow> if name \<in> set Object_prototype_names then Object else UndefinedValue))"

fun or_zero :: "js_value \<Rightarrow> js_value" where
  "or_zero UndefinedValue = Number (Double False 0)"
| "or_zero (Number (Double s m)) = (if m = 0 then Number (Double False 0) else Number (Double s m))"
| "or_zero (Number NotANumber) = Number (Double False 0)"
| "or_zero v = v"

fun ToNumber :: "js_value \<Rightarrow> double" where
  "ToNumber (Number x) = x"
| "ToNumber v = NotANumber"

fun le_zero :: "double \<Rightarrow> bool" where
  "le_zero (Double s m) = (s \<or> m = 0)"
| "le_zero (Infinity s) = s"
| "le_zero NotANumber = False"

section \<open>Estimated time remaining (App.tsx)\<close>

text \<open>
  \<open>transferSpeedRef.current\<close> is a plain object from the identifier of a transfer to its
  last throughput sample in bytes per second; only numbers are stored in it.
\<close>

definition calculateEstimatedTimeRemaining ::
  "(string \<rightharpoonup> double) \<Rightarrow> string \<Rightarrow> double \<Rightarrow> double \<Rightarrow> double option" where
  "calculateEstimatedTimeRemaining transferSpeedRef fileId currentProgress totalSize =
     (let speed = or_zero (object_get transferSpeedRef fileId) in
      if le_zero (ToNumber speed) then None
      else
        let remainingBytes =
              double_mul totalSize
                (double_sub (Double False 1) (double_div currentProgress (Double False 100)));
            estimatedTimeMs =
              double_mul (double_div remainingBytes (ToNumber speed)) (Double False 1000)
        in Some (Math_max_0 (Math_round estimatedTimeMs)))"

section \<open>JavaScript values used by the transfer engine\<close>

text \<open>
  Counters and progress values are JavaScript numbers. The program only ever produces
  integers, \<open>Infinity\<close> (a division by a zero chunk total) and \<open>NaN\<close> (an increment of a
  deleted counter), so these three shapes are the model of a number. An absent object
  property (\<open>undefined\<close>) is \<open>None\<close>.
\<close>

datatype jsnumber = Num int | PosInfinity | NaN


text \<open>\<open>x < n\<close> for an integer \<open>n\<close>: false for \<open>undefined\<close> (which converts to \<open>NaN\<close>),
  \<open>NaN\<close> and \<open>Infinity\<close>.\<close>

fun js_less :: "jsnumber option \<Rightarrow> int \<Rightarrow> bool" where
  "js_less (Some (Num n)) k = (n < k)"
| "js_less v k = False"


text \<open>\<open>x++\<close> and \<open>x--\<close> on an object property: the stored result.\<close>

fun js_increment :: "jsnumber option \<Rightarrow> jsnumber" where
  "js_increment (Some (Num n)) = Num (n + 1)"
| "js_increment (Some PosInfinity) = PosInfinity"
| "js_increment v = NaN"





text \<open>\<open>blob.slice(start, end)\<close>: the bytes from \<open>start\<close> up to, not including, \<open>end\<close>, both
  clamped to the size of the blob.\<close>

definition blob_slice :: "bytes \<Rightarrow> nat \<Rightarrow> nat \<Rightarrow> bytes" where
  "blob_slice blob start end = drop start (take end blob)"

section \<open>Constants and chunk arithmetic (App.tsx)\<close>

definition CHUNK_SIZE :: nat where
  "CHUNK_SIZE = 2097152"

definition MAX_CHUNKS_IN_FLIGHT :: int where
  "MAX_CHUNKS_IN_FLIGHT = 30"

text \<open>\<open>Math.ceil(encryptedBlob.size / CHUNK_SIZE)\<close>. The division is by a power of two, so
  it is exact on doubles and the ceiling is the mathematical one.\<close>

definition totalChunks_of :: "nat \<Rightarrow> nat" where
  "totalChunks_of blobSize = nat \<lceil>real blobSize / real CHUNK_SIZE\<rceil>"

text \<open>The slice \<open>sendChunk(chunkIndex)\<close> reads.\<close>

definition chunk_start :: "nat \<Rightarrow> nat" where
  "chunk_start chunkIndex = chunkIndex * CHUNK_SIZE"

definition chunk_end :: "bytes \<Rightarrow> nat \<Rightarrow> nat" where
  "chunk_end encryptedBlob chunkIndex = min (chunk_start chunkIndex + CHUNK_SIZE) (length encryptedBlob)"

definition chunk_bytes :: "bytes \<Rightarrow> nat \<Rightarrow> bytes" where
  "chunk_bytes encryptedBlob chunkIndex =
     blob_slice encryptedBlob (chunk_start chunkIndex) (chunk_end encryptedBlob chunkIndex)"

text \<open>\<open>Math.round(n * 100 / totalChunks)\<close>, with JavaScript's division by zero.\<close>

definition progress_of :: "nat \<Rightarrow> nat \<Rightarrow> jsnumber" where
  "progress_of n totalChunks =
     (if totalChunks = 0 then (if n = 0 then NaN else PosInfinity)
      else Num (round (real (n * 100) / real totalChunks)))"

section \<open>Messages and application state (types.ts, App.tsx)\<close>

datatype status = Pending | Transferring | Completed | Errored | Rejected | Cancelled

record FileTransfer =
  ft_id :: string
  ft_name :: string
  ft_size :: nat
  ft_type :: string
  ft_progress :: jsnumber
  ft_status :: status
  ft_blob :: "Blob option"
  ft_key :: "string option"
  ft_iv :: "nat list option"
  ft_sessionId :: "string option"
  ft_secure :: "bool option"

text \<open>The fields of a \<open>file-request\<close> and of a \<open>file-start\<close> message.\<close>

record FileInfo =
  fi_fileId :: string
  fi_fileName :: string
  fi_fileSize :: nat
  fi_fileType :: string
  fi_key :: "string option"
  fi_iv :: "nat list option"
  fi_sessionId :: "string option"
  fi_secure :: "bool option"

text \<open>
  The message envelope, one constructor per \<open>type\<close> tag the program sends or inspects;
  \<open>OtherMessage\<close> is any other value received.
\<close>

datatype message =
    KeyExchangeInit string string
  | KeyExchangeReply string string
  | KeyExchangeComplete string
  | FileRequestMsg FileInfo
  | FileStartMsg FileInfo
  | FileChunk string nat nat bytes
  | FileComplete string
  | FileAccepted string
  | FileRejected string
  | ChunkAck string nat
  | FileCancel string
  | FileCancelAck string
  | OtherMessage

record PendingTransfer =
  pt_fileId :: string
  pt_fileName :: string
  pt_fileSize :: nat
  pt_fileType :: string
  pt_secure :: "bool option"

record CryptoKeyPair =
  publicKey :: CryptoKey
  privateKey :: CryptoKey

record File =
  file_name :: string
  file_type :: string
  file_bytes :: bytes

text \<open>
  The platform's cryptography, as the program reaches it: each field is a function of
  \<open>window.crypto.subtle\<close>, or one of the module's one-line wrappers made only of such
  calls; \<open>None\<close> is a rejected promise. \<open>exportKey\<close> and \<open>importKey\<close> go through base64
  text, \<open>exportPublicKey\<close> and \<open>importPublicKey\<close> likewise. \<open>generateKeyPair\<close> is the ECDH key
  pair the platform generates for the connection.
\<close>

record WebCrypto =
  generateKeyPair :: "CryptoKeyPair option"
  exportPublicKey :: "CryptoKey \<Rightarrow> string option"
  importPublicKey :: "string \<Rightarrow> CryptoKey option"
  deriveSharedSecret :: "CryptoKey \<Rightarrow> CryptoKey \<Rightarrow> CryptoKey option"
  exportKey :: "CryptoKey \<Rightarrow> string option"
  importKey :: "string \<Rightarrow> CryptoKey option"
  subtle_encrypt :: "CryptoKey \<Rightarrow> bytes \<Rightarrow> bytes \<Rightarrow> bytes option"
  subtle_decrypt :: "CryptoKey \<Rightarrow> bytes \<Rightarrow> bytes \<Rightarrow> bytes option"

text \<open>
  One call \<open>sendFile(file, fileId)\<close>, with the random values the platform hands to it (the
  session identifier of \<open>generateSessionId\<close>, the IVs of \<open>getRandomValues\<close>, the key of
  \<open>generateEncryptionKey\<close>) and the value the state variable \<open>transfers\<close> has in the render
  the call is made from, which the closures of the call keep reading.
\<close>

record SendFileCall =
  sc_file :: File
  sc_fileId :: string
  sc_exchangeSessionId :: string
  sc_secureIv :: bytes
  sc_legacyKey :: CryptoKey
  sc_legacyIv :: bytes
  sc_transfers :: "FileTransfer list"

text \<open>The local variables of \<open>sendFile\<close> that its \<open>handleResponse\<close> listener closes over.\<close>

record SendClosure =
  sf_file :: File
  sf_fileId :: string
  sf_encryptedData :: Blob
  sf_key :: "string option"
  sf_iv :: "nat list option"
  sf_sessionId :: "string option"
  sf_secure :: bool
  sf_transfers :: "FileTransfer list"

text \<open>
  The local variables of one \<open>startFileTransfer\<close> or \<open>startSecureFileTransfer\<close> call that
  \<open>sendChunk\<close> and \<open>processNextChunks\<close> close over. \<open>tc_awaiting\<close> holds while \<open>sendChunk\<close> is
  suspended at \<open>await slice.arrayBuffer()\<close> for the chunk \<open>tc_currentChunk\<close>.
\<close>

record TransferClosure =
  tc_encryptedBlob :: Blob
  tc_totalChunks :: nat
  tc_currentChunk :: nat
  tc_awaiting :: bool
  tc_transfers :: "FileTransfer list"

text \<open>
  The state of one \<open>App\<close> component: its React state (\<open>transfers\<close>, \<open>pendingTransfers\<close>,
  \<open>secureMode\<close>), its refs, the module's session key store, the closures that are alive
  (suspended \<open>sendFile\<close> calls keyed by session, response listeners and chunk pumps keyed
  by file identifier), the settled \<open>sendFile\<close> promises, and the messages handed to
  \<open>conn.send\<close>, oldest first. \<open>handlerTransfers\<close> is the value of \<open>transfers\<close> in the render
  that created the registered \<open>handleIncomingData\<close>. File identifiers are drawn at random
  per file and identify closures here. Display state that no transition reads (throughput
  samples, time stamps, the estimate derived from them, connection quality) is left out.
\<close>

record App =
  transfers :: "FileTransfer list"
  pendingTransfers :: "PendingTransfer list"
  secureMode :: bool
  handlerTransfers :: "FileTransfer list"
  connRef :: bool
  fileChunksRef :: "string \<rightharpoonup> bytes option list"
  chunksInFlightRef :: "string \<rightharpoonup> jsnumber"
  cancelledTransfersRef :: "string set"
  keyPairRef :: "CryptoKeyPair option"
  pendingKeyExchangeRef :: "string \<rightharpoonup> SendFileCall"
  sessionKeyStore :: SessionKeyStore
  responseHandlers :: "string \<rightharpoonup> SendClosure"
  transferClosures :: "string \<rightharpoonup> TransferClosure"
  sendFileResult :: "string \<rightharpoonup> error + bool"
  sentMessages :: "message list"

text \<open>\<open>connRef.current?.send(m)\<close>: nothing is sent without a connection.\<close>

definition send :: "message \<Rightarrow> App \<Rightarrow> App" where
  "send m s = (if connRef s then s\<lparr>sentMessages := sentMessages s @ [m]\<rparr> else s)"

text \<open>\<open>prev.map(t => t.id === fileId ? f(t) : t)\<close>\<close>

definition update_transfer ::
  "string \<Rightarrow> (FileTransfer \<Rightarrow> FileTransfer) \<Rightarrow> FileTransfer list \<Rightarrow> FileTransfer list" where
  "update_transfer fileId f ts = map (\<lambda>t. if ft_id t = fileId then f t else t) ts"

definition setTransfers :: "(FileTransfer list \<Rightarrow> FileTransfer list) \<Rightarrow> App \<Rightarrow> App" where
  "setTransfers f s = s\<lparr>transfers := f (transfers s)\<rparr>"

text \<open>\<open>transfers.find(t => t.id === fileId)\<close>\<close>

definition find_transfer :: "string \<Rightarrow> FileTransfer list \<Rightarrow> FileTransfer option" where
  "find_transfer fileId ts = find (\<lambda>t. ft_id t = fileId) ts"


section \<open>Encryption (lib/encryption.ts)\<close>

record FileEncryption =
  fe_data :: Blob
  fe_key :: string
  fe_iv :: "nat list"

record SecureFileEncryption =
  se_data :: Blob
  se_iv :: "nat list"
  se_sessionId :: string

text \<open>\<open>Array.from(iv)\<close> of a \<open>Uint8Array\<close>.\<close>

definition Array_from :: "bytes \<Rightarrow> nat list" where
  "Array_from iv = map unat iv"

text \<open>\<open>encryptFile\<close>, given the key \<open>generateEncryptionKey\<close> returns and the random IV.\<close>

definition encryptFile :: "WebCrypto \<Rightarrow> CryptoKey \<Rightarrow> bytes \<Rightarrow> File \<Rightarrow> error + FileEncryption" where
  "encryptFile wc key iv file =
     (case subtle_encrypt wc key iv (file_bytes file) of
        None \<Rightarrow> Inl OperationError
      | Some encryptedData \<Rightarrow>
          (case exportKey wc key of
             None \<Rightarrow> Inl OperationError
           | Some exportedKey \<Rightarrow>
               Inr \<lparr>fe_data = \<lparr>blob_data = encryptedData, blob_type = []\<rparr>,
                    fe_key = exportedKey, fe_iv = Array_from iv\<rparr>))"

definition secureEncryptFile ::
  "WebCrypto \<Rightarrow> SessionKeyStore \<Rightarrow> bytes \<Rightarrow> File \<Rightarrow> string \<Rightarrow> error + SecureFileEncryption" where
  "secureEncryptFile wc sessionKeys iv file sessionId =
     (case getSessionKey sessionKeys sessionId of
        Inl e \<Rightarrow> Inl e
      | Inr Undefined \<Rightarrow> Inl NoSessionKeyFound
      | Inr ObjectValue \<Rightarrow> Inl TypeError
      | Inr (KeyValue key) \<Rightarrow>
          (case subtle_encrypt wc key iv (file_bytes file) of
             None \<Rightarrow> Inl OperationError
           | Some encryptedData \<Rightarrow>
               Inr \<lparr>se_data = \<lparr>blob_data = encryptedData, blob_type = []\<rparr>,
                    se_iv = Array_from iv, se_sessionId = sessionId\<rparr>))"

text \<open>\<open>new Uint8Array(iv)\<close> turns the array of numbers back into bytes.\<close>

definition Uint8Array :: "nat list \<Rightarrow> bytes" where
  "Uint8Array iv = map of_nat iv"


text \<open>
  \<open>secureDecryptFile\<close>. Without a key it logs the result of \<open>listSessionKeys()\<close> and throws
  the missing-key error; \<open>listSessionKeys\<close> is imported from \<open>keyExchange.ts\<close>, whose text
  here does not define it, so it is a parameter: what it returns, or \<open>None\<close> when the call
  throws. With a value that is not \<open>undefined\<close> the blob is read and handed to
  \<open>subtle.decrypt\<close>, which rejects a value that is not a key; any rejection is caught and
  thrown again as the decryption error.
\<close>

definition secureDecryptFile ::
  "WebCrypto \<Rightarrow> (SessionKeyStore \<Rightarrow> string list option) \<Rightarrow> SessionKeyStore \<Rightarrow>
     Blob \<Rightarrow> string \<Rightarrow> nat list \<Rightarrow> string \<Rightarrow> error + Blob" where
  "secureDecryptFile wc listSessionKeys sessionKeys encryptedBlob sessionId iv type =
     (case getSessionKey sessionKeys sessionId of
        Inl e \<Rightarrow> Inl e
      | Inr Undefined \<Rightarrow>
          (case listSessionKeys sessionKeys of
             None \<Rightarrow> Inl TypeError
           | Some availableKeys \<Rightarrow> Inl MissingEncryptionInformation)
      | Inr ObjectValue \<Rightarrow> Inl FailedToDecrypt
      | Inr (KeyValue key) \<Rightarrow>
          (case subtle_decrypt wc key (Uint8Array iv) (blob_data encryptedBlob) of
             None \<Rightarrow> Inl FailedToDecrypt
           | Some decryptedData \<Rightarrow> Inr \<lparr>blob_data = decryptedData, blob_type = type\<rparr>))"


section \<open>The chunk pump (App.tsx, startFileTransfer and startSecureFileTransfer)\<close>

text \<open>
  Both functions define the same \<open>sendChunk\<close> and \<open>processNextChunks\<close>. One round of the
  \<open>while\<close> loop is split where the source suspends: \<open>processNextChunks\<close> runs from the loop
  head to \<open>await slice.arrayBuffer()\<close> inside \<open>sendChunk\<close>, and \<open>chunkRead\<close> runs from there to
  the end of the round and on into the next loop head. Other handlers run in between.

  The loop head: the loop condition and the two cancellation checks. When they let the
  round start, \<open>sendChunk\<close> takes its slice and suspends; otherwise the loop is left, and
  while chunks remain a timer calls \<open>processNextChunks\<close> again.
\<close>

definition loop_condition :: "string \<Rightarrow> TransferClosure \<Rightarrow> App \<Rightarrow> bool" where
  "loop_condition fileId c s \<longleftrightarrow>
     tc_currentChunk c < tc_totalChunks c
     \<and> js_less (chunksInFlightRef s fileId) MAX_CHUNKS_IN_FLIGHT"

definition cancelled_check :: "string \<Rightarrow> TransferClosure \<Rightarrow> App \<Rightarrow> bool" where
  "cancelled_check fileId c s \<longleftrightarrow>
     fileId \<in> cancelledTransfersRef s
     \<or> (case find_transfer fileId (tc_transfers c) of
           None \<Rightarrow> False
         | Some transfer \<Rightarrow> ft_status transfer = Cancelled)"

definition processNextChunks :: "string \<Rightarrow> App \<Rightarrow> App" where
  "processNextChunks fileId s =
     (case transferClosures s fileId of
        None \<Rightarrow> s
      | Some c \<Rightarrow>
          if tc_awaiting c then s
          else if loop_condition fileId c s \<and> \<not> cancelled_check fileId c s
          then s\<lparr>transferClosures := (transferClosures s)(fileId \<mapsto> c\<lparr>tc_awaiting := True\<rparr>)\<rparr>
          else s)"

text \<open>
  The rest of the round, after the slice has been read: the chunk is sent, the in-flight
  counter of the transfer incremented, \<open>currentChunk\<close> advanced and the progress shown;
  after the last chunk \<open>file-complete\<close> is sent, the transfer marked completed and the
  counter deleted.
\<close>

definition sendChunk_resume :: "string \<Rightarrow> TransferClosure \<Rightarrow> App \<Rightarrow> App" where
  "sendChunk_resume fileId c s =
     (send (FileChunk fileId (tc_currentChunk c) (tc_totalChunks c)
              (chunk_bytes (blob_data (tc_encryptedBlob c)) (tc_currentChunk c))) s)
       \<lparr>chunksInFlightRef :=
          (chunksInFlightRef s)(fileId \<mapsto> js_increment (chunksInFlightRef s fileId))\<rparr>"

definition finish_round :: "string \<Rightarrow> TransferClosure \<Rightarrow> App \<Rightarrow> App" where
  "finish_round fileId c s =
     (let currentChunk = tc_currentChunk c + 1;
          s1 = setTransfers (update_transfer fileId (\<lambda>t.
                 t\<lparr>ft_progress := progress_of currentChunk (tc_totalChunks c),
                    ft_status := Transferring\<rparr>)) s;
          s2 = s1\<lparr>transferClosures := (transferClosures s1)
                 (fileId \<mapsto> c\<lparr>tc_currentChunk := currentChunk, tc_awaiting := False\<rparr>)\<rparr>
      in if currentChunk = tc_totalChunks c
         then (setTransfers (update_transfer fileId (\<lambda>t.
                  t\<lparr>ft_progress := Num 100, ft_status := Completed\<rparr>))
                (send (FileComplete fileId) s2))
                \<lparr>chunksInFlightRef := (chunksInFlightRef s2)(fileId := None)\<rparr>
         else processNextChunks fileId s2)"

definition chunkRead :: "string \<Rightarrow> App \<Rightarrow> App" where
  "chunkRead fileId s =
     (case transferClosures s fileId of
        None \<Rightarrow> s
      | Some c \<Rightarrow>
          if tc_awaiting c then finish_round fileId c (sendChunk_resume fileId c s) else s)"

text \<open>
  \<open>startFileTransfer\<close> (legacy key in the messages) and \<open>startSecureFileTransfer\<close> (session
  identifier in the messages). \<open>connRef.current.send\<close> has no \<open>?.\<close> here: without a
  connection it throws after the transfer has been added to the list, and the function
  stops there: the result is then the error with the state it leaves.
\<close>

definition start_pump :: "string \<Rightarrow> Blob \<Rightarrow> FileTransfer list \<Rightarrow> App \<Rightarrow> App" where
  "start_pump fileId encryptedBlob rendered s =
     processNextChunks fileId
       (s\<lparr>chunksInFlightRef := (chunksInFlightRef s)(fileId \<mapsto> Num 0),
          transferClosures := (transferClosures s)(fileId \<mapsto>
            \<lparr>tc_encryptedBlob = encryptedBlob,
             tc_totalChunks = totalChunks_of (length (blob_data encryptedBlob)),
             tc_currentChunk = 0, tc_awaiting = False, tc_transfers = rendered\<rparr>)\<rparr>)"

definition startFileTransfer ::
  "Blob \<Rightarrow> string \<Rightarrow> string \<Rightarrow> string \<Rightarrow> string option \<Rightarrow> nat list option \<Rightarrow>
     FileTransfer list \<Rightarrow> App \<Rightarrow> error \<times> App + App" where
  "startFileTransfer encryptedBlob fileId fileName fileType key iv rendered s =
     (let s1 = setTransfers (\<lambda>prev. prev @
                 [\<lparr>ft_id = fileId, ft_name = fileName, ft_size = length (blob_data encryptedBlob),
                   ft_type = fileType, ft_progress = Num 0, ft_status = Pending, ft_blob = None,
                   ft_key = key, ft_iv = iv, ft_sessionId = None, ft_secure = None\<rparr>]) s
      in if \<not> connRef s1 then Inl (TypeError, s1)
         else Inr (start_pump fileId encryptedBlob rendered
                (send (FileStartMsg
                   \<lparr>fi_fileId = fileId, fi_fileName = fileName,
                    fi_fileSize = length (blob_data encryptedBlob), fi_fileType = fileType,
                    fi_key = key, fi_iv = iv, fi_sessionId = None, fi_secure = Some False\<rparr>) s1)))"

definition startSecureFileTransfer ::
  "Blob \<Rightarrow> string \<Rightarrow> string \<Rightarrow> string \<Rightarrow> string \<Rightarrow> nat list option \<Rightarrow>
     FileTransfer list \<Rightarrow> App \<Rightarrow> error \<times> App + App" where
  "startSecureFileTransfer encryptedBlob fileId fileName fileType sessionId iv rendered s =
     (let s1 = setTransfers (\<lambda>prev. prev @
                 [\<lparr>ft_id = fileId, ft_name = fileName, ft_size = length (blob_data encryptedBlob),
                   ft_type = fileType, ft_progress = Num 0, ft_status = Pending, ft_blob = None,
                   ft_key = None, ft_iv = iv, ft_sessionId = Some sessionId,
                   ft_secure = Some True\<rparr>]) s
      in if \<not> connRef s1 then Inl (TypeError, s1)
         else Inr (start_pump fileId encryptedBlob rendered
                (send (FileStartMsg
                   \<lparr>fi_fileId = fileId, fi_fileName = fileName,
                    fi_fileSize = length (blob_data encryptedBlob), fi_fileType = fileType,
                    fi_key = None, fi_iv = iv, fi_sessionId = Some sessionId,
                    fi_secure = Some True\<rparr>) s1)))"

section \<open>Negotiation of a transfer (App.tsx, sendFile)\<close>

text \<open>
  \<open>handleResponse\<close>, the listener \<open>sendFile\<close> registers for its file: on \<open>file-accepted\<close> it
  starts the transfer, secure when \<open>secure && sessionId\<close>, removes itself and resolves the
  promise of \<open>sendFile\<close> with \<open>true\<close>; on \<open>file-rejected\<close> it records the transfer as
  rejected, removes itself and resolves with \<open>false\<close>. An exception of the start leaves the
  listener registered and the promise pending.
\<close>

definition settle :: "string \<Rightarrow> error + bool \<Rightarrow> App \<Rightarrow> App" where
  "settle fileId r s = s\<lparr>sendFileResult := (sendFileResult s)(fileId \<mapsto> r)\<rparr>"

definition off :: "string \<Rightarrow> App \<Rightarrow> App" where
  "off fileId s = s\<lparr>responseHandlers := (responseHandlers s)(fileId := None)\<rparr>"

definition handleResponse :: "SendClosure \<Rightarrow> message \<Rightarrow> App \<Rightarrow> App" where
  "handleResponse c m s =
     (case m of
        FileAccepted fileId \<Rightarrow>
          if fileId \<noteq> sf_fileId c then s
          else
            (case (if sf_secure c \<and> sf_sessionId c \<noteq> None \<and> sf_sessionId c \<noteq> Some []
                   then startSecureFileTransfer (sf_encryptedData c) fileId
                          (file_name (sf_file c)) (file_type (sf_file c))
                          (the (sf_sessionId c)) (sf_iv c) (sf_transfers c) s
                   else startFileTransfer (sf_encryptedData c) fileId
                          (file_name (sf_file c)) (file_type (sf_file c))
                          (sf_key c) (sf_iv c) (sf_transfers c) s) of
               Inl (e, s') \<Rightarrow> s'
             | Inr s' \<Rightarrow> settle fileId (Inr True) (off fileId s'))
      | FileRejected fileId \<Rightarrow>
          if fileId \<noteq> sf_fileId c then s
          else settle fileId (Inr False) (off fileId
                 (setTransfers (\<lambda>prev. prev @
                    [\<lparr>ft_id = fileId, ft_name = file_name (sf_file c),
                      ft_size = length (file_bytes (sf_file c)), ft_type = file_type (sf_file c),
                      ft_progress = Num 0, ft_status = Rejected, ft_blob = None,
                      ft_key = None, ft_iv = None, ft_sessionId = None, ft_secure = None\<rparr>]) s))
      | _ \<Rightarrow> s)"

text \<open>
  The end of \<open>sendFile\<close>: the request is sent and \<open>handleResponse\<close> registered.
  \<open>connRef.current.send\<close> throws without a connection, and \<open>sendFile\<close> rejects.
\<close>

definition send_request :: "SendClosure \<Rightarrow> App \<Rightarrow> App" where
  "send_request c s =
     (if \<not> connRef s then settle (sf_fileId c) (Inl TypeError) s
      else (send (FileRequestMsg
                   \<lparr>fi_fileId = sf_fileId c, fi_fileName = file_name (sf_file c),
                    fi_fileSize = length (blob_data (sf_encryptedData c)),
                    fi_fileType = file_type (sf_file c),
                    fi_key = sf_key c, fi_iv = sf_iv c, fi_sessionId = sf_sessionId c,
                    fi_secure = Some (sf_secure c)\<rparr>) s)
             \<lparr>responseHandlers := (responseHandlers s)(sf_fileId c \<mapsto> c)\<rparr>)"

text \<open>
  The legacy branch of \<open>sendFile\<close> (\<open>if (!secure)\<close>): a fresh key encrypts the file and
  travels in the request. An exception of \<open>encryptFile\<close> rejects \<open>sendFile\<close>.
\<close>

definition sendFile_legacy :: "WebCrypto \<Rightarrow> SendFileCall \<Rightarrow> App \<Rightarrow> App" where
  "sendFile_legacy wc call s =
     (case encryptFile wc (sc_legacyKey call) (sc_legacyIv call) (sc_file call) of
        Inl e \<Rightarrow> settle (sc_fileId call) (Inl e) s
      | Inr legacyEncryption \<Rightarrow>
          send_request
            \<lparr>sf_file = sc_file call, sf_fileId = sc_fileId call,
             sf_encryptedData = fe_data legacyEncryption,
             sf_key = Some (fe_key legacyEncryption), sf_iv = Some (fe_iv legacyEncryption),
             sf_sessionId = None, sf_secure = False, sf_transfers = sc_transfers call\<rparr> s)"

text \<open>
  \<open>sendFile\<close> after \<open>await initiateKeyExchange(exchangeSessionId)\<close> has returned
  \<open>keyExchangeSuccess\<close>: on \<open>false\<close>, and on an exception of \<open>secureEncryptFile\<close>, \<open>secure\<close>
  becomes \<open>false\<close> and the legacy branch runs.
\<close>

definition sendFile_resume :: "WebCrypto \<Rightarrow> SendFileCall \<Rightarrow> bool \<Rightarrow> App \<Rightarrow> App" where
  "sendFile_resume wc call keyExchangeSuccess s =
     (if \<not> keyExchangeSuccess then sendFile_legacy wc call s
      else
        (case secureEncryptFile wc (sessionKeyStore s) (sc_secureIv call) (sc_file call)
                (sc_exchangeSessionId call) of
           Inl e \<Rightarrow> sendFile_legacy wc call s
         | Inr secureEncryption \<Rightarrow>
             send_request
               \<lparr>sf_file = sc_file call, sf_fileId = sc_fileId call,
                sf_encryptedData = se_data secureEncryption,
                sf_key = None, sf_iv = Some (se_iv secureEncryption),
                sf_sessionId = Some (sc_exchangeSessionId call), sf_secure = True,
                sf_transfers = sc_transfers call\<rparr> s))"

text \<open>
  \<open>initiateKeyExchange\<close>: a key pair is generated if there is none, the public key
  exported and sent, and the caller suspended on a promise kept in
  \<open>pendingKeyExchangeRef\<close>. Any exception on the way is the error, with the state it
  leaves.
\<close>

definition initiateKeyExchange :: "WebCrypto \<Rightarrow> SendFileCall \<Rightarrow> App \<Rightarrow> error \<times> App + App" where
  "initiateKeyExchange wc call s =
     (if \<not> connRef s then Inl (NoActiveConnection, s)
      else
        (case (case keyPairRef s of Some kp \<Rightarrow> Some kp | None \<Rightarrow> generateKeyPair wc) of
           None \<Rightarrow> Inl (OperationError, s)
         | Some kp \<Rightarrow>
             (case exportPublicKey wc (publicKey kp) of
                None \<Rightarrow> Inl (OperationError, s\<lparr>keyPairRef := Some kp\<rparr>)
              | Some publicKeyStr \<Rightarrow>
                  Inr ((send (KeyExchangeInit publicKeyStr (sc_exchangeSessionId call))
                          (s\<lparr>keyPairRef := Some kp\<rparr>))
                        \<lparr>pendingKeyExchangeRef :=
                           (pendingKeyExchangeRef s)(sc_exchangeSessionId call \<mapsto> call)\<rparr>))))"

text \<open>
  \<open>sendFile\<close> from its start to its first suspension: without an open connection it
  throws; in secure mode it starts the key exchange, and an exception there switches to
  the legacy branch; otherwise the legacy branch runs at once.
\<close>

definition sendFile :: "WebCrypto \<Rightarrow> SendFileCall \<Rightarrow> App \<Rightarrow> App" where
  "sendFile wc call s =
     (if \<not> connRef s then settle (sc_fileId call) (Inl NoActiveConnection) s
      else if secureMode s then
        (case initiateKeyExchange wc call s of
           Inl (e, s') \<Rightarrow> sendFile_legacy wc call s'
         | Inr s' \<Rightarrow> s')
      else sendFile_legacy wc call s)"

text \<open>
  Resolving the promise of a key exchange wakes the suspended \<open>sendFile\<close>, if one waits
  for that session, and deletes the entry.
\<close>

definition resolve_key_exchange :: "WebCrypto \<Rightarrow> string \<Rightarrow> bool \<Rightarrow> App \<Rightarrow> App" where
  "resolve_key_exchange wc sessionId success s =
     (case pendingKeyExchangeRef s sessionId of
        None \<Rightarrow> s
      | Some call \<Rightarrow>
          sendFile_resume wc call success
            (s\<lparr>pendingKeyExchangeRef := (pendingKeyExchangeRef s)(sessionId := None)\<rparr>))"

section \<open>Incoming messages (App.tsx, handleIncomingData)\<close>










section \<open>User actions and events (App.tsx)\<close>










section \<open>Example states\<close>



section \<open>The in-flight window\<close>

text \<open>
  What the counter of a transfer may be: absent (the transfer has not started, has
  completed or was cancelled), or an integer from 0 to the limit; \<open>NaN\<close> only for a
  transfer in the cancelled set, whose counter was deleted while a round was suspended.
\<close>

definition counter_ok :: "jsnumber option \<Rightarrow> bool \<Rightarrow> bool" where
  "counter_ok v cancelled =
     (case v of
        None \<Rightarrow> True
      | Some (Num n) \<Rightarrow> 0 \<le> n \<and> n \<le> MAX_CHUNKS_IN_FLIGHT
      | Some PosInfinity \<Rightarrow> False
      | Some NaN \<Rightarrow> cancelled)"

definition in_flight_ok :: "string \<Rightarrow> App \<Rightarrow> bool" where
  "in_flight_ok fileId s =
     counter_ok (chunksInFlightRef s fileId) (fileId \<in> cancelledTransfersRef s)"

text \<open>A suspended round was started below the limit, or its counter has been deleted by
  a cancellation since.\<close>

definition suspended_ok :: "TransferClosure option \<Rightarrow> jsnumber option \<Rightarrow> bool \<Rightarrow> bool" where
  "suspended_ok closure v cancelled =
     (case closure of
        None \<Rightarrow> True
      | Some c \<Rightarrow>
          tc_awaiting c \<longrightarrow> js_less v MAX_CHUNKS_IN_FLIGHT \<or> (v = None \<and> cancelled))"

definition round_ok :: "string \<Rightarrow> App \<Rightarrow> bool" where
  "round_ok fileId s =
     suspended_ok (transferClosures s fileId) (chunksInFlightRef s fileId)
       (fileId \<in> cancelledTransfersRef s)"

definition pump_inv :: "string \<Rightarrow> App \<Rightarrow> bool" where
  "pump_inv fileId s \<longleftrightarrow> in_flight_ok fileId s \<and> round_ok fileId s"




section \<open>The chunks of an outbound transfer\<close>



text \<open>A message that is neither a chunk nor the completion of the transfer.\<close>

fun quiet :: "string \<Rightarrow> message \<Rightarrow> bool" where
  "quiet fileId (FileChunk f chunk totalChunks chunkData) = (f \<noteq> fileId)"
| "quiet fileId (FileComplete f) = (f \<noteq> fileId)"
| "quiet fileId m = True"



text \<open>
  A state extends another for a transfer when the pump of the transfer is as it was, the
  connection has not come back, and the messages sent since are quiet for the transfer.
\<close>

definition extends :: "string \<Rightarrow> App \<Rightarrow> App \<Rightarrow> bool" where
  "extends fileId s s' \<longleftrightarrow>
     transferClosures s' fileId = transferClosures s fileId
     \<and> (connRef s' \<longrightarrow> connRef s)
     \<and> (\<exists>ms. sentMessages s' = sentMessages s @ ms \<and> list_all (quiet fileId) ms)"

text \<open>
  At most one closure is alive per file identifier: a response listener has no pump yet,
  a \<open>sendFile\<close> suspended in the key exchange has neither, and no two suspended calls are
  for the same file.
\<close>

definition wf_fields ::
  "(string \<rightharpoonup> SendClosure) \<Rightarrow> (string \<rightharpoonup> TransferClosure) \<Rightarrow> (string \<rightharpoonup> SendFileCall) \<Rightarrow> bool" where
  "wf_fields handlers closures pending \<longleftrightarrow>
     (\<forall>f c. handlers f = Some c \<longrightarrow> closures f = None)
     \<and> (\<forall>sid call. pending sid = Some call \<longrightarrow>
            handlers (sc_fileId call) = None \<and> closures (sc_fileId call) = None)
     \<and> (\<forall>sid sid' call call'.
            pending sid = Some call \<and> pending sid' = Some call'
            \<and> sc_fileId call = sc_fileId call' \<longrightarrow> sid = sid')"

definition wf_sends :: "App \<Rightarrow> bool" where
  "wf_sends s = wf_fields (responseHandlers s) (transferClosures s) (pendingKeyExchangeRef s)"







section \<open>Fallback to the legacy key\<close>










section \<open>Properties of the session key store\<close>

text \<open>
  For a session identifier that no prototype of the store has a member for, in
  particular for the hexadecimal identifiers of \<open>generateSessionId\<close>, the store behaves as
  a finite map: after \<open>removeSessionKey\<close> the identifier reads as \<open>undefined\<close>, whatever was
  stored, and \<open>secureDecryptFile\<close> throws the missing-key error once \<open>listSessionKeys\<close> has
  returned.
\<close>

lemma removeSessionKey_ordinary:
  assumes "sessionId \<notin> set (''__proto__'' # Object_prototype_names @ CryptoKey_attribute_names)"
  shows "\<exists>sessionKeys'. removeSessionKey sessionId sessionKeys = Inr sessionKeys'
           \<and> getSessionKey sessionKeys' sessionId = Inr Undefined
           \<and> secureDecryptFile wc (\<lambda>sessionKeys. Some (listSessionKeys sessionKeys))
                sessionKeys' encryptedBlob sessionId iv type = Inl MissingEncryptionInformation"
  using assms
  by (cases "own_properties sessionKeys sessionId")
     (simp_all add: removeSessionKey_def getSessionKey_def secureDecryptFile_def)


section \<open>Properties of the estimate\<close>

lemma scale2_powr: "scale2 q = 2 powr (of_int q)"
proof (cases "0 \<le> q")
  case True
  then show ?thesis
    by (simp add: scale2_def powr_realpow [symmetric])
next
  case False
  then have "2 powr of_int q = 1 / (2::real) powr of_int (- q)"
    by (simp add: powr_minus divide_simps)
  also have "\<dots> = 1 / 2 ^ nat (- q)"
    using False by (simp add: powr_realpow [symmetric])
  finally show ?thesis using False by (simp add: scale2_def)
qed

lemma scale2_pos [simp]: "0 < scale2 q"
  by (simp add: scale2_powr)

lemma floor_log2:
  assumes "scale2 k \<le> x" and "x < scale2 (k + 1)"
  shows "\<lfloor>log 2 x\<rfloor> = k"
proof -
  have "0 < scale2 k" by simp
  then have pos: "0 < x" using assms(1) by linarith
  show ?thesis
    using assms by (simp add: floor_log_eq_powr_iff [OF pos] scale2_powr)
qed

lemma round_half_even_near:
  assumes "\<bar>y - of_int m\<bar> < 1 / 2"
  shows "round_half_even y = m"
proof (cases "of_int m \<le> y")
  case True
  then have "\<lfloor>y\<rfloor> = m" using assms by linarith
  then show ?thesis using assms True by (simp add: round_half_even_def)
next
  case False
  then have f: "\<lfloor>y\<rfloor> = m - 1" using assms by linarith
  have "1 / 2 < y - of_int (m - 1)" using assms False by simp
  then show ?thesis using f by (simp add: round_half_even_def Let_def)
qed

lemma round_half_even_upper: "round_half_even y \<le> \<lfloor>y\<rfloor> + 1"
  by (simp add: round_half_even_def Let_def)

text \<open>The rounding of a positive number in the normal range, from its binade and the
  nearest multiple of the unit in the last place.\<close>

lemma fl_eval:
  assumes "scale2 k \<le> x" and "x < scale2 (k + 1)" and "- 1022 \<le> k" and "k < 1023"
    and "round_half_even (x / scale2 (k - 52)) = m"
  shows "fl sign x = Double sign (of_int m * scale2 (k - 52))"
proof -
  have "0 < scale2 k" by simp
  then have pos: "0 < x" using assms(1) by linarith
  have q: "ulp_exponent x = k - 52"
    using floor_log2 [OF assms(1,2)] assms(3) by (simp add: ulp_exponent_def)
  have "of_int m \<le> of_int \<lfloor>x / scale2 (k - 52)\<rfloor> + (1::real)"
    using round_half_even_upper [of "x / scale2 (k - 52)"] assms(5)
    by (metis of_int_1 of_int_add of_int_le_iff)
  also have "\<dots> \<le> x / scale2 (k - 52) + 1"
    by simp
  also have "x / scale2 (k - 52) < scale2 (k + 1) / scale2 (k - 52)"
    using assms(2) by (simp add: divide_strict_right_mono)
  also have "scale2 (k + 1) / scale2 (k - 52) = 2 ^ 53"
  proof -
    have e: "real_of_int (k + 1) - real_of_int (k - 52) = real 53" by simp
    have "scale2 (k + 1) / scale2 (k - 52) = 2 powr (of_int (k + 1) - of_int (k - 52))"
      by (simp only: scale2_powr powr_diff)
    also have "\<dots> = 2 powr (real 53)" by (simp only: e)
    also have "\<dots> = 2 ^ 53" by (rule powr_realpow) simp
    finally show ?thesis .
  qed
  finally have "real_of_int m < 2 ^ 53 + 1" by simp
  then have m: "m \<le> 2 ^ 53"
  proof -
    have "real_of_int m < real_of_int (2 ^ 53 + 1)"
      using \<open>real_of_int m < 2 ^ 53 + 1\<close> by simp
    then have "m < 2 ^ 53 + 1" by (simp only: of_int_less_iff)
    then show ?thesis by simp
  qed
  have "of_int m * scale2 (k - 52) \<le> 2 ^ 53 * scale2 (k - 52)"
    using m by (simp add: mult_right_mono)
  also have "2 ^ 53 * scale2 (k - 52) = scale2 (k + 1)"
  proof -
    have e: "real 53 + real_of_int (k - 52) = real_of_int (k + 1)" by simp
    have "(2::real) ^ 53 = 2 powr (real 53)" by (rule powr_realpow [symmetric]) simp
    then have "2 ^ 53 * scale2 (k - 52) = 2 powr (real 53 + real_of_int (k - 52))"
      by (simp only: scale2_powr powr_add)
    then show ?thesis by (simp only: e scale2_powr)
  qed
  also have "scale2 (k + 1) \<le> scale2 1023"
  proof -
    have "real_of_int (k + 1) \<le> real_of_int 1023" using assms(4) by simp
    then have "(2::real) powr real_of_int (k + 1) \<le> 2 powr real_of_int 1023"
      by (intro powr_mono) simp_all
    then show ?thesis by (simp only: scale2_powr)
  qed
  also have "scale2 1023 < 2 ^ 1024"
    by (simp add: scale2_def)
  finally have small: "\<not> 2 ^ 1024 \<le> of_int m * scale2 (k - 52)" by simp
  show ?thesis
    using pos q assms(5) small by (simp add: fl_def round_magnitude_def Let_def)
qed

lemma Math_max_0_round:
  "Math_max_0 (Math_round x) = NotANumber \<or> Math_max_0 (Math_round x) = Infinity False
   \<or> (\<exists>n. 0 \<le> n \<and> Math_max_0 (Math_round x) = Double False (of_int n))"
proof (cases x)
  case (Double s m)
  show ?thesis
  proof (cases s)
    case True
    then have "Math_max_0 (Math_round x) = Double False (of_int 0)"
      using Double by simp
    then show ?thesis by (metis order_refl)
  next
    case False
    then have "Math_max_0 (Math_round x) =
                 Double False (of_int \<bar>\<lfloor>signed_magnitude False m + 1 / 2\<rfloor>\<bar>)"
      using Double by simp
    then show ?thesis by (metis abs_ge_zero)
  qed
next
  case (Infinity s)
  show ?thesis
  proof (cases s)
    case True
    then have "Math_max_0 (Math_round x) = Double False (of_int 0)"
      using Infinity by simp
    then show ?thesis by (metis order_refl)
  next
    case False
    then show ?thesis using Infinity by simp
  qed
next
  case NotANumber
  then show ?thesis by simp
qed

text \<open>
  C10 as the specification words it: the estimate is \<open>remainingBytes / lastSampleRate\<close>.
  The function returns that quotient in milliseconds and rounded to an integer, so the
  two differ. With a sample of 3000 bytes per second and one byte left, the quotient is
  1/3000 of a second, a third of a millisecond, and the function returns 0.
\<close>

theorem calculateEstimatedTimeRemaining_counterexample:
  "calculateEstimatedTimeRemaining (Map.empty(''f1'' \<mapsto> Double False 3000)) ''f1''
       (Double False 0) (Double False 1) = Some (Double False 0)
   \<and> max 0 ((1 * (1 - 0 / 100)) / 3000) \<noteq> (0::real)
   \<and> max 0 ((1 * (1 - 0 / 100)) / 3000 * 1000) \<noteq> (0::real)"
proof -
  have a: "double_div (Double False 0) (Double False 100) = Double False 0"
    by (simp add: fl_def round_magnitude_def)
  have b: "double_sub (Double False 1) (Double False 0) = Double False 1"
    using fl_eval [of "0" "1" 4503599627370496 False] by (simp add: scale2_def signed_magnitude_def round_half_even_def)
  have c: "double_mul (Double False 1) (Double False 1) = Double False 1"
    using fl_eval [of "0" "1" 4503599627370496 False] by (simp add: scale2_def signed_magnitude_def round_half_even_def)
  have d: "double_div (Double False 1) (Double False 3000) = Double False (6148914691236517 / 18446744073709551616)"
    using fl_eval [of "- 12" "1 / 3000" 6148914691236517 False] by (simp add: scale2_def signed_magnitude_def round_half_even_def)
  have e: "double_mul (Double False (6148914691236517 / 18446744073709551616)) (Double False 1000) = Double False (6004799503160661 / 18014398509481984)"
    using fl_eval [of "- 2" "768614336404564625 / 2305843009213693952" 6004799503160661 False] by (simp add: scale2_def signed_magnitude_def round_half_even_def)
  have f: "Math_round (Double False (6004799503160661 / 18014398509481984)) = Double False 0"
    by (simp add: signed_magnitude_def) linarith?
  show ?thesis
    by (simp add: calculateEstimatedTimeRemaining_def object_get_def a b c d e f
          del: double_div.simps double_sub.simps double_mul.simps Math_round.simps)
qed

text \<open>
  C10, amended. For a transfer whose identifier reads as a number or as \<open>undefined\<close> in
  the table of samples (as every identifier does that is not the name of a member of
  \<open>Object.prototype\<close>): the estimate is undefined when the transfer has no throughput
  sample, or the sample is zero, negative or \<open>NaN\<close>; otherwise it is
  \<open>Math.max(0, Math.round(remainingBytes / lastSampleRate * 1000))\<close>, where
  \<open>remainingBytes = totalSize * (1 - progress / 100)\<close>: the quotient taken in
  milliseconds and rounded to the nearest integer, every operation in double precision.
  The number returned is a non-negative integer, \<open>Infinity\<close> or \<open>NaN\<close>.
\<close>

theorem calculateEstimatedTimeRemaining_spec:
  assumes "object_get transferSpeedRef fileId \<noteq> Object"
  shows "calculateEstimatedTimeRemaining transferSpeedRef fileId currentProgress totalSize =
     (case transferSpeedRef fileId of
        None \<Rightarrow> None
      | Some speed \<Rightarrow>
          if le_zero speed \<or> speed = NotANumber then None
          else Some (Math_max_0 (Math_round
                 (double_mul
                    (double_div
                       (double_mul totalSize
                          (double_sub (Double False 1)
                             (double_div currentProgress (Double False 100))))
                       speed)
                    (Double False 1000)))))
   \<and> (\<forall>estimate.
          calculateEstimatedTimeRemaining transferSpeedRef fileId currentProgress totalSize
            = Some estimate \<longrightarrow>
          estimate = NotANumber \<or> estimate = Infinity False
          \<or> (\<exists>n. 0 \<le> n \<and> estimate = Double False (of_int n)))"
proof -
  have 1: "calculateEstimatedTimeRemaining transferSpeedRef fileId currentProgress totalSize =
     (case transferSpeedRef fileId of
        None \<Rightarrow> None
      | Some speed \<Rightarrow>
          if le_zero speed \<or> speed = NotANumber then None
          else Some (Math_max_0 (Math_round
                 (double_mul
                    (double_div
                       (double_mul totalSize
                          (double_sub (Double False 1)
                             (double_div currentProgress (Double False 100))))
                       speed)
                    (Double False 1000)))))"
  proof (cases "transferSpeedRef fileId")
    case None
    then show ?thesis
      using assms
      by (simp add: calculateEstimatedTimeRemaining_def object_get_def split: if_splits)
  next
    case (Some speed)
    then have g: "object_get transferSpeedRef fileId = Number speed"
      using assms by (simp add: object_get_def split: if_splits)
    show ?thesis
      unfolding calculateEstimatedTimeRemaining_def g Some
      by (cases speed) (simp_all add: Let_def del: double_div.simps double_sub.simps
            double_mul.simps Math_round.simps Math_max_0.simps)
  qed
  have 2: "\<forall>estimate.
          calculateEstimatedTimeRemaining transferSpeedRef fileId currentProgress totalSize
            = Some estimate \<longrightarrow>
          estimate = NotANumber \<or> estimate = Infinity False
          \<or> (\<exists>n. 0 \<le> n \<and> estimate = Double False (of_int n))"
    using Math_max_0_round
    by (auto simp: calculateEstimatedTimeRemaining_def Let_def
          simp del: double_div.simps double_sub.simps double_mul.simps Math_round.simps
            Math_max_0.simps split: if_splits)
  show ?thesis
    using 1 2 by simp
qed

text \<open>
  The theorem at a sample of 4000 bytes per second, with 33 percent of 1000 bytes done:
  the double nearest to 0.33 is subtracted from 1, and the products and quotient give
  167.49999999999997, so the estimate is 167 milliseconds (on real numbers the value is
  167.5, which rounds to 168). Without a sample the estimate is undefined.
\<close>

theorem calculateEstimatedTimeRemaining_spec_witness:
  "object_get (Map.empty(''f1'' \<mapsto> Double False 4000)) ''f1'' \<noteq> Object
   \<and> calculateEstimatedTimeRemaining (Map.empty(''f1'' \<mapsto> Double False 4000)) ''f1''
        (Double False 33) (Double False 1000) = Some (Double False 167)
   \<and> object_get Map.empty ''f1'' \<noteq> Object
   \<and> calculateEstimatedTimeRemaining Map.empty ''f1''
        (Double False 33) (Double False 1000) = None"
proof -
  have h: "object_get (Map.empty(''f1'' \<mapsto> Double False 4000)) ''f1'' \<noteq> Object"
    and h': "object_get Map.empty ''f1'' \<noteq> Object"
    by (simp_all add: object_get_def Object_prototype_names_def)
  have a: "double_div (Double False 33) (Double False 100) = Double False (5944751508129055 / 18014398509481984)"
    using fl_eval [of "- 2" "33 / 100" 5944751508129055 False] by (simp add: scale2_def signed_magnitude_def round_half_even_def)
  have b: "double_sub (Double False 1) (Double False (5944751508129055 / 18014398509481984)) = Double False (377176468792279 / 562949953421312)"
    using fl_eval [of "- 1" "12069647001352929 / 18014398509481984" 6034823500676464 False] by (simp add: scale2_def signed_magnitude_def round_half_even_def)
  have c: "double_mul (Double False 1000) (Double False (377176468792279 / 562949953421312)) = Double False (5893382324879359 / 8796093022208)"
    using fl_eval [of "9" "47147058599034875 / 70368744177664" 5893382324879359 False] by (simp add: scale2_def signed_magnitude_def round_half_even_def)
  have d: "double_div (Double False (5893382324879359 / 8796093022208)) (Double False 4000) = Double False (377176468792279 / 2251799813685248)"
    using fl_eval [of "- 3" "5893382324879359 / 35184372088832000" 6034823500676464 False] by (simp add: scale2_def signed_magnitude_def round_half_even_def)
  have e: "double_mul (Double False (377176468792279 / 2251799813685248)) (Double False 1000) = Double False (5893382324879359 / 35184372088832)"
    using fl_eval [of "7" "47147058599034875 / 281474976710656" 5893382324879359 False] by (simp add: scale2_def signed_magnitude_def round_half_even_def)
  have f: "Math_round (Double False (5893382324879359 / 35184372088832)) = Double False 167"
    by (simp add: signed_magnitude_def) linarith?
  have g: "Math_max_0 (Double False 167) = Double False 167"
    by simp
  show ?thesis
    using h h' calculateEstimatedTimeRemaining_spec [OF h, of "Double False 33" "Double False 1000"]
      calculateEstimatedTimeRemaining_spec [OF h', of "Double False 33" "Double False 1000"]
    by (simp add: a b c d e f del: double_div.simps double_sub.simps double_mul.simps
          Math_round.simps)
qed

section \<open>Cancellation\<close>

text \<open>No transition takes a transfer out of the cancelled set.\<close>

lemma cancelled_send [simp]: "cancelledTransfersRef (send m s) = cancelledTransfersRef s"
  by (simp add: send_def)

lemma cancelled_setTransfers [simp]: "cancelledTransfersRef (setTransfers f s) = cancelledTransfersRef s"
  by (simp add: setTransfers_def)

lemma cancelled_settle [simp]: "cancelledTransfersRef (settle fileId r s) = cancelledTransfersRef s"
  by (simp add: settle_def)

lemma cancelled_off [simp]: "cancelledTransfersRef (off fileId s) = cancelledTransfersRef s"
  by (simp add: off_def)

lemma cancelled_processNextChunks [simp]:
  "cancelledTransfersRef (processNextChunks fileId s) = cancelledTransfersRef s"
  by (simp add: processNextChunks_def split: option.splits)

lemma cancelled_chunkRead [simp]:
  "cancelledTransfersRef (chunkRead fileId s) = cancelledTransfersRef s"
  by (simp add: chunkRead_def finish_round_def sendChunk_resume_def Let_def split: option.splits)

lemma cancelled_start_pump [simp]:
  "cancelledTransfersRef (start_pump fileId b r s) = cancelledTransfersRef s"
  by (simp add: start_pump_def)

lemma cancelled_startFileTransfer:
  "cancelledTransfersRef (case startFileTransfer b fileId n t k iv r s of Inl (e, s') \<Rightarrow> s' | Inr s' \<Rightarrow> s') = cancelledTransfersRef s"
  by (simp add: startFileTransfer_def Let_def)

lemma cancelled_handleResponse [simp]:
  "cancelledTransfersRef (handleResponse c m s) = cancelledTransfersRef s"
  by (simp add: handleResponse_def startFileTransfer_def startSecureFileTransfer_def Let_def split: message.splits)

lemma cancelled_send_request [simp]:
  "cancelledTransfersRef (send_request c s) = cancelledTransfersRef s"
  by (simp add: send_request_def)

lemma cancelled_sendFile_legacy [simp]:
  "cancelledTransfersRef (sendFile_legacy wc call s) = cancelledTransfersRef s"
  by (simp add: sendFile_legacy_def split: sum.splits)

lemma cancelled_sendFile_resume [simp]:
  "cancelledTransfersRef (sendFile_resume wc call b s) = cancelledTransfersRef s"
  by (simp add: sendFile_resume_def split: sum.splits)

lemma cancelled_resolve_key_exchange [simp]:
  "cancelledTransfersRef (resolve_key_exchange wc sid b s) = cancelledTransfersRef s"
  by (simp add: resolve_key_exchange_def split: option.splits)

lemma cancelled_sendFile [simp]:
  "cancelledTransfersRef (sendFile wc call s) = cancelledTransfersRef s"
  by (simp add: sendFile_def initiateKeyExchange_def split: sum.splits option.splits)









section \<open>Evaluating the model\<close>














section \<open>Completion of an inbound transfer\<close>



lemmas pump_inv_outer = pump_inv_def in_flight_ok_def round_ok_def


lemma send_frame [simp]:
  "transfers (send m s) = transfers s"
  "pendingTransfers (send m s) = pendingTransfers s"
  "secureMode (send m s) = secureMode s"
  "handlerTransfers (send m s) = handlerTransfers s"
  "connRef (send m s) = connRef s"
  "fileChunksRef (send m s) = fileChunksRef s"
  "chunksInFlightRef (send m s) = chunksInFlightRef s"
  "keyPairRef (send m s) = keyPairRef s"
  "pendingKeyExchangeRef (send m s) = pendingKeyExchangeRef s"
  "sessionKeyStore (send m s) = sessionKeyStore s"
  "responseHandlers (send m s) = responseHandlers s"
  "transferClosures (send m s) = transferClosures s"
  "sendFileResult (send m s) = sendFileResult s"
  by (simp_all add: send_def)

lemma setTransfers_frame [simp]:
  "transfers (setTransfers g s) = g (transfers s)"
  "pendingTransfers (setTransfers g s) = pendingTransfers s"
  "secureMode (setTransfers g s) = secureMode s"
  "handlerTransfers (setTransfers g s) = handlerTransfers s"
  "connRef (setTransfers g s) = connRef s"
  "fileChunksRef (setTransfers g s) = fileChunksRef s"
  "chunksInFlightRef (setTransfers g s) = chunksInFlightRef s"
  "keyPairRef (setTransfers g s) = keyPairRef s"
  "pendingKeyExchangeRef (setTransfers g s) = pendingKeyExchangeRef s"
  "sessionKeyStore (setTransfers g s) = sessionKeyStore s"
  "responseHandlers (setTransfers g s) = responseHandlers s"
  "transferClosures (setTransfers g s) = transferClosures s"
  "sendFileResult (setTransfers g s) = sendFileResult s"
  "sentMessages (setTransfers g s) = sentMessages s"
  by (simp_all add: setTransfers_def)

lemma settle_frame [simp]:
  "transfers (settle f r s) = transfers s"
  "pendingTransfers (settle f r s) = pendingTransfers s"
  "secureMode (settle f r s) = secureMode s"
  "handlerTransfers (settle f r s) = handlerTransfers s"
  "connRef (settle f r s) = connRef s"
  "fileChunksRef (settle f r s) = fileChunksRef s"
  "chunksInFlightRef (settle f r s) = chunksInFlightRef s"
  "keyPairRef (settle f r s) = keyPairRef s"
  "pendingKeyExchangeRef (settle f r s) = pendingKeyExchangeRef s"
  "sessionKeyStore (settle f r s) = sessionKeyStore s"
  "responseHandlers (settle f r s) = responseHandlers s"
  "transferClosures (settle f r s) = transferClosures s"
  "sendFileResult (settle f r s) = (sendFileResult s)(f \<mapsto> r)"
  "sentMessages (settle f r s) = sentMessages s"
  by (simp_all add: settle_def)

lemma off_frame [simp]:
  "transfers (off f s) = transfers s"
  "pendingTransfers (off f s) = pendingTransfers s"
  "secureMode (off f s) = secureMode s"
  "handlerTransfers (off f s) = handlerTransfers s"
  "connRef (off f s) = connRef s"
  "fileChunksRef (off f s) = fileChunksRef s"
  "chunksInFlightRef (off f s) = chunksInFlightRef s"
  "keyPairRef (off f s) = keyPairRef s"
  "pendingKeyExchangeRef (off f s) = pendingKeyExchangeRef s"
  "sessionKeyStore (off f s) = sessionKeyStore s"
  "responseHandlers (off f s) = (responseHandlers s)(f := None)"
  "transferClosures (off f s) = transferClosures s"
  "sendFileResult (off f s) = sendFileResult s"
  "sentMessages (off f s) = sentMessages s"
  by (simp_all add: off_def)



lemma pump_inv_send [simp]: "pump_inv fileId (send m s) = pump_inv fileId s"
  by (simp add: pump_inv_outer)

lemma pump_inv_setTransfers [simp]: "pump_inv fileId (setTransfers g s) = pump_inv fileId s"
  by (simp add: pump_inv_outer)

lemma pump_inv_settle [simp]: "pump_inv fileId (settle f r s) = pump_inv fileId s"
  by (simp add: pump_inv_outer)

lemma pump_inv_off [simp]: "pump_inv fileId (off f s) = pump_inv fileId s"
  by (simp add: pump_inv_outer)







lemma pump_inv_send_request [simp]:
  "pump_inv fileId (send_request c s) = pump_inv fileId s"
  by (simp add: send_request_def) (simp add: pump_inv_outer)

lemma pump_inv_sendFile_legacy [simp]:
  "pump_inv fileId (sendFile_legacy wc call s) = pump_inv fileId s"
  by (simp add: sendFile_legacy_def split: sum.splits)

lemma pump_inv_sendFile_resume [simp]:
  "pump_inv fileId (sendFile_resume wc call b s) = pump_inv fileId s"
  by (simp add: sendFile_resume_def split: sum.splits)

lemma pump_inv_resolve [simp]:
  "pump_inv fileId (resolve_key_exchange wc sid b s) = pump_inv fileId s"
  by (simp add: resolve_key_exchange_def split: option.splits) (simp add: pump_inv_outer)













section \<open>Properties of the in-flight window\<close>















lemma extends_refl [simp]: "extends fileId s s"
  by (simp add: extends_def)


lemma extends_send: "quiet fileId m \<Longrightarrow> extends fileId s (send m s)"
  by (simp add: extends_def send_def)

lemma extends_setTransfers [simp]: "extends fileId s (setTransfers g s)"
  by (simp add: extends_def)

lemma extends_settle [simp]: "extends fileId s (settle f r s)"
  by (simp add: extends_def)

lemma extends_off [simp]: "extends fileId s (off f s)"
  by (simp add: extends_def)
























lemma wf_sends_simps [simp]:
  "wf_sends (send m s) = wf_sends s"
  "wf_sends (setTransfers g s) = wf_sends s"
  "wf_sends (settle f r s) = wf_sends s"
  by (simp_all add: wf_sends_def)















































section \<open>Properties of the fallback\<close>

lemma Uint8Array_Array_from [simp]: "Uint8Array (Array_from iv) = iv"
  by (simp add: Uint8Array_def Array_from_def comp_def)




















end
